theory Spec2Isabelle
  imports Main "HOL-Library.Char_ord" "HOL-Library.List_Lexorder"
begin

section \<open>Conversation identifiers (models/Message.js)\<close>

text \<open>
  User ids reach the model as the strings that \<^verbatim>\<open>toString()\<close> produces. JavaScript's
  default \<^verbatim>\<open>sort()\<close> orders strings by their code units, which is the lexicographic
  order on character lists; \<^verbatim>\<open>join\<close> puts the separator between consecutive elements.
\<close>

type_synonym user_id = string

fun join :: "string \<Rightarrow> string list \<Rightarrow> string" where
  "join sep [] = []"
| "join sep [x] = x"
| "join sep (x # y # ys) = x @ sep @ join sep (y # ys)"

definition createConversationId :: "user_id \<Rightarrow> user_id \<Rightarrow> string" where
  "createConversationId userIdA userIdB = join ''_'' (sort [userIdA, userIdB])"

section \<open>Regular expressions (the fragment used by utils/contentFilter.js)\<close>

text \<open>
  Message text is a list of code units below 256. The patterns of the filter use literal
  characters, character classes with a greedy bounded or unbounded repetition, sequence,
  alternation, the greedy optional group and the word boundary assertion. The matcher is
  written in continuation-passing style, as the language definition gives it: the first
  successful path in backtracking order decides where a match ends.
\<close>

datatype rx =
    Lit string
  | Cls "char \<Rightarrow> bool" nat "nat option"
  | Seq rx rx
  | Alt rx rx
  | Opt rx
  | WordB

definition is_digit :: "char \<Rightarrow> bool" where
  "is_digit c = (c \<in> set ''0123456789'')"

definition is_word :: "char \<Rightarrow> bool" where
  "is_word c =
     (c \<in> set ''abcdefghijklmnopqrstuvwxyzABCDEFGHIJKLMNOPQRSTUVWXYZ0123456789_'')"

definition is_space :: "char \<Rightarrow> bool" where
  "is_space c = (c \<in> set [CHR 0x09, CHR 0x0A, CHR 0x0B, CHR 0x0C, CHR 0x0D, CHR 0x20, CHR 0xA0])"

definition upper_of :: "char \<Rightarrow> char" where
  "upper_of c =
     (case map_of (zip ''abcdefghijklmnopqrstuvwxyz'' ''ABCDEFGHIJKLMNOPQRSTUVWXYZ'') c of
        Some u \<Rightarrow> u
      | None \<Rightarrow> c)"

definition lower_of :: "char \<Rightarrow> char" where
  "lower_of c =
     (case map_of (zip ''ABCDEFGHIJKLMNOPQRSTUVWXYZ'' ''abcdefghijklmnopqrstuvwxyz'') c of
        Some l \<Rightarrow> l
      | None \<Rightarrow> c)"

text \<open>
  Under the \<^verbatim>\<open>i\<close> flag two characters agree when their canonical (upper case) forms
  agree. Every literal of the filter is ASCII, and no character from 128 on canonicalises
  to an ASCII one, so folding the ASCII letters is enough. The classes of the filter are
  closed under case, so the flag does not change them.
\<close>

definition canonicalize :: "bool \<Rightarrow> char \<Rightarrow> char" where
  "canonicalize ignoreCase c = (if ignoreCase then upper_of c else c)"

type_synonym cursor = "char option \<times> string"

fun lit_m :: "bool \<Rightarrow> string \<Rightarrow> cursor \<Rightarrow> cursor option" where
  "lit_m ic [] x = Some x"
| "lit_m ic (a # as) (p, []) = None"
| "lit_m ic (a # as) (p, c # cs) =
     (if canonicalize ic a = canonicalize ic c then lit_m ic as (Some c, cs) else None)"

definition below :: "nat \<Rightarrow> nat option \<Rightarrow> bool" where
  "below k hi = (case hi of None \<Rightarrow> True | Some h \<Rightarrow> k < h)"

fun cls_m :: "(char \<Rightarrow> bool) \<Rightarrow> nat \<Rightarrow> nat option \<Rightarrow> nat \<Rightarrow> cursor \<Rightarrow>
    (cursor \<Rightarrow> string option) \<Rightarrow> string option" where
  "cls_m q lo hi k (p, []) cont = (if lo \<le> k then cont (p, []) else None)"
| "cls_m q lo hi k (p, c # cs) cont =
     (case (if q c \<and> below k hi then cls_m q lo hi (Suc k) (Some c, cs) cont else None) of
        Some r \<Rightarrow> Some r
      | None \<Rightarrow> if lo \<le> k then cont (p, c # cs) else None)"

definition at_boundary :: "cursor \<Rightarrow> bool" where
  "at_boundary x =
     ((case fst x of None \<Rightarrow> False | Some a \<Rightarrow> is_word a) \<noteq>
      (case snd x of [] \<Rightarrow> False | b # _ \<Rightarrow> is_word b))"

fun rx_m :: "bool \<Rightarrow> rx \<Rightarrow> cursor \<Rightarrow> (cursor \<Rightarrow> string option) \<Rightarrow> string option" where
  "rx_m ic (Lit as) x cont = (case lit_m ic as x of None \<Rightarrow> None | Some y \<Rightarrow> cont y)"
| "rx_m ic (Cls q lo hi) x cont = cls_m q lo hi 0 x cont"
| "rx_m ic (Seq r1 r2) x cont = rx_m ic r1 x (\<lambda>y. rx_m ic r2 y cont)"
| "rx_m ic (Alt r1 r2) x cont =
     (case rx_m ic r1 x cont of Some r \<Rightarrow> Some r | None \<Rightarrow> rx_m ic r2 x cont)"
| "rx_m ic (Opt r) x cont =
     (case rx_m ic r x cont of Some r \<Rightarrow> Some r | None \<Rightarrow> cont x)"
| "rx_m ic WordB x cont = (if at_boundary x then cont x else None)"

text \<open>
  The search of \<^verbatim>\<open>RegExp.prototype.exec\<close>: try a match at the cursor, else move one
  character on; the position after the last character is tried too. The result is the
  text left after the match.
\<close>

fun search :: "bool \<Rightarrow> rx \<Rightarrow> char option \<Rightarrow> string \<Rightarrow> string option" where
  "search ic r p [] = rx_m ic r (p, []) (\<lambda>y. Some (snd y))"
| "search ic r p (c # cs) =
     (case rx_m ic r (p, c # cs) (\<lambda>y. Some (snd y)) of
        Some rest \<Rightarrow> Some rest
      | None \<Rightarrow> search ic r (Some c) cs)"

text \<open>
  \<^verbatim>\<open>test\<close> on a regular expression with the \<^verbatim>\<open>g\<close> flag starts at the object's
  \<^verbatim>\<open>lastIndex\<close>; a match stores the index where it ended, a failure stores 0. The
  result is the verdict and the new \<^verbatim>\<open>lastIndex\<close>.
\<close>

definition regexp_test :: "bool \<Rightarrow> rx \<Rightarrow> nat \<Rightarrow> string \<Rightarrow> bool \<times> nat" where
  "regexp_test ic r lastIndex s =
     (if lastIndex > length s then (False, 0)
      else
        (case search ic r (if lastIndex = 0 then None else Some (s ! (lastIndex - 1)))
                (drop lastIndex s) of
           None \<Rightarrow> (False, 0)
         | Some rest \<Rightarrow> (True, length s - length rest)))"

text \<open>A regular expression object created by the call that uses it starts at index 0.\<close>

definition test_fresh :: "bool \<Rightarrow> rx \<Rightarrow> string \<Rightarrow> bool" where
  "test_fresh ic r s = fst (regexp_test ic r 0 s)"

fun seqs :: "rx list \<Rightarrow> rx" where
  "seqs [] = Lit []"
| "seqs [r] = r"
| "seqs (r # rs) = Seq r (seqs rs)"

fun alts :: "rx list \<Rightarrow> rx" where
  "alts [] = Lit []"
| "alts [r] = r"
| "alts (r # rs) = Alt r (alts rs)"

section \<open>Content filter (utils/contentFilter.js)\<close>

definition PROFANITY_WORDS :: "string list" where
  "PROFANITY_WORDS = [''badword1'', ''badword2'']"

datatype pattern_key =
    email | phone | socialHandle | url | whatsapp | telegram | instagram | facebook
  | twitter | skype | discord | contactMe | meetOutside

definition word_dot_dash :: "char \<Rightarrow> bool" where
  "word_dot_dash c = (is_word c \<or> c = CHR ''.'' \<or> c = CHR ''-'')"

definition space_dash :: "char \<Rightarrow> bool" where
  "space_dash c = (is_space c \<or> c = CHR ''-'')"

definition non_space :: "char \<Rightarrow> bool" where
  "non_space c = (\<not> is_space c)"

definition some_space :: rx where
  "some_space = Cls is_space 1 None"

text \<open>The table \<^verbatim>\<open>CONTACT_PATTERNS\<close>: each pattern with its \<^verbatim>\<open>i\<close> flag.\<close>

fun pattern_rx :: "pattern_key \<Rightarrow> rx" where
  "pattern_rx email =
     seqs [Cls word_dot_dash 1 None, Lit ''@'', Cls word_dot_dash 1 None, Lit ''.'',
           Cls is_word 1 None]"
| "pattern_rx phone =
     seqs [Opt (seqs [Opt (Lit ''+''), Cls is_digit 1 (Some 4), Cls space_dash 0 (Some 1)]),
           Opt (Lit ''(''), Cls is_digit 1 (Some 4), Opt (Lit '')''),
           Cls space_dash 0 (Some 1), Cls is_digit 1 (Some 4),
           Cls space_dash 0 (Some 1), Cls is_digit 1 (Some 4),
           Cls space_dash 0 (Some 1), Cls is_digit 1 (Some 9)]"
| "pattern_rx socialHandle = seqs [Lit ''@'', Cls is_word 1 None]"
| "pattern_rx url =
     Alt (seqs [Lit ''http'', Opt (Lit ''s''), Lit ''://'', Cls non_space 1 None])
         (seqs [Lit ''www.'', Cls non_space 1 None])"
| "pattern_rx whatsapp = Alt (Lit ''whatsapp'') (Lit ''wa.me'')"
| "pattern_rx telegram = Alt (Lit ''telegram'') (Lit ''t.me'')"
| "pattern_rx instagram = Alt (Lit ''instagram'') (Lit ''insta'')"
| "pattern_rx facebook = Alt (Lit ''facebook'') (Lit ''fb.com'')"
| "pattern_rx twitter = Alt (Lit ''twitter'') (Lit ''x.com'')"
| "pattern_rx skype = Lit ''skype''"
| "pattern_rx discord = Lit ''discord''"
| "pattern_rx contactMe =
     alts [seqs [Lit ''contact'', some_space, Lit ''me''],
           seqs [Lit ''reach'', some_space, Lit ''me''],
           seqs [Lit ''call'', some_space, Lit ''me''],
           seqs [Lit ''text'', some_space, Lit ''me'']]"
| "pattern_rx meetOutside =
     alts [seqs [Lit ''meet'', some_space, Lit ''outside''],
           seqs [Lit ''outside'', some_space, Lit ''platform''],
           seqs [Lit ''off'', some_space, Lit ''platform'']]"

fun pattern_ignoreCase :: "pattern_key \<Rightarrow> bool" where
  "pattern_ignoreCase phone = False"
| "pattern_ignoreCase socialHandle = False"
| "pattern_ignoreCase k = True"

fun pattern_name :: "pattern_key \<Rightarrow> string" where
  "pattern_name email = ''email''"
| "pattern_name phone = ''phone''"
| "pattern_name socialHandle = ''socialHandle''"
| "pattern_name url = ''url''"
| "pattern_name whatsapp = ''whatsapp''"
| "pattern_name telegram = ''telegram''"
| "pattern_name instagram = ''instagram''"
| "pattern_name facebook = ''facebook''"
| "pattern_name twitter = ''twitter''"
| "pattern_name skype = ''skype''"
| "pattern_name discord = ''discord''"
| "pattern_name contactMe = ''contactMe''"
| "pattern_name meetOutside = ''meetOutside''"

definition CONTACT_PHRASES :: "string list" where
  "CONTACT_PHRASES =
     [''contact me at'', ''reach me at'', ''call me at'', ''text me at'', ''my number is'',
      ''my email is'', ''find me on'', ''add me on'', ''follow me on'', ''dm me on'',
      ''message me on'', ''whatsapp me'', ''telegram me'', ''email me'', ''outside this app'',
      ''off this platform'', ''meet outside'', ''contact directly'', ''reach directly'']"

text \<open>
  The pattern objects live at module level and all carry the \<^verbatim>\<open>g\<close> flag, so each keeps
  its \<^verbatim>\<open>lastIndex\<close> from one call to the next. That is the only state of the filter.
\<close>

type_synonym last_indices = "pattern_key \<Rightarrow> nat"

definition fresh_patterns :: last_indices where
  "fresh_patterns = (\<lambda>k. 0)"

definition test_pattern :: "pattern_key \<Rightarrow> string \<Rightarrow> last_indices \<Rightarrow> bool \<times> last_indices" where
  "test_pattern k content li =
     (case regexp_test (pattern_ignoreCase k) (pattern_rx k) (li k) content of
        (b, n) \<Rightarrow> (b, li(k := n)))"

definition toLowerCase :: "string \<Rightarrow> string" where
  "toLowerCase s = map lower_of s"

fun includes_str :: "string \<Rightarrow> string \<Rightarrow> bool" where
  "includes_str [] sub = (sub = [])"
| "includes_str (c # cs) sub = (take (length sub) (c # cs) = sub \<or> includes_str cs sub)"

record validation =
  isValid :: bool
  violations :: "string list"

definition check_pattern ::
    "pattern_key \<Rightarrow> string \<Rightarrow> string \<Rightarrow> string list \<times> last_indices \<Rightarrow>
     string list \<times> last_indices" where
  "check_pattern k msg content acc =
     (case test_pattern k content (snd acc) of
        (b, li') \<Rightarrow> (if b then fst acc @ [msg] else fst acc, li'))"

definition platformKeys :: "pattern_key list" where
  "platformKeys = [whatsapp, telegram, instagram, facebook, twitter, skype, discord]"

definition validateMessageContent :: "string \<Rightarrow> last_indices \<Rightarrow> validation \<times> last_indices" where
  "validateMessageContent content li =
     (let acc = check_pattern email ''Email addresses are not allowed'' content ([], li);
          acc = check_pattern phone ''Phone numbers are not allowed'' content acc;
          acc = check_pattern url ''URLs and links are not allowed'' content acc;
          acc = check_pattern socialHandle ''Social media handles are not allowed'' content acc;
          acc = foldl (\<lambda>a platform.
                   check_pattern platform
                     (''References to '' @ pattern_name platform @ '' are not allowed'') content a)
                 acc platformKeys;
          lowerContent = toLowerCase content;
          vs = foldl (\<lambda>v phrase.
                   if includes_str lowerContent phrase
                   then v @ [''Requests for direct contact are not allowed''] else v)
                 (fst acc) CONTACT_PHRASES
      in (\<lparr>isValid = (length vs = 0), violations = vs\<rparr>, snd acc))"

definition dot_dash_underscore :: "char \<Rightarrow> bool" where
  "dot_dash_underscore c = (c = CHR ''-'' \<or> c = CHR ''.'' \<or> c = CHR ''_'')"

text \<open>
  The four patterns of \<^verbatim>\<open>detectSuspiciousPatterns\<close> are literals inside the function, so
  every call creates them anew; the third has no \<^verbatim>\<open>i\<close> flag.
\<close>

definition suspiciousPatterns :: "(bool \<times> rx) list" where
  "suspiciousPatterns =
     [(True, seqs [WordB,
                   alts [Lit ''zero'', Lit ''one'', Lit ''two'', Lit ''three'', Lit ''four'',
                         Lit ''five'', Lit ''six'', Lit ''seven'', Lit ''eight'', Lit ''nine''],
                   WordB]),
      (True, seqs [Cls is_word 1 None, some_space, Alt (Lit ''at'') (Lit ''@''), some_space,
                   Cls is_word 1 None, some_space, Alt (Lit ''dot'') (Lit ''.''), some_space,
                   Cls is_word 1 None]),
      (False, seqs [Cls is_digit 1 None, Cls is_space 0 None, Cls dot_dash_underscore 1 (Some 1),
                    Cls is_space 0 None, Cls is_digit 1 None, Cls is_space 0 None,
                    Cls dot_dash_underscore 1 (Some 1), Cls is_space 0 None, Cls is_digit 1 None]),
      (True, seqs [WordB,
                   alts [Lit ''instagram'', Lit ''facebook'', Lit ''twitter'', Lit ''telegram'',
                         Lit ''whatsapp''],
                   WordB, Cls is_space 0 None, Opt (Lit '':''), Cls is_space 0 None,
                   Cls is_word 1 None])]"

definition detectSuspiciousPatterns :: "string \<Rightarrow> bool" where
  "detectSuspiciousPatterns content =
     list_ex (\<lambda>pattern. test_fresh (fst pattern) (snd pattern) content) suspiciousPatterns"

definition profanity_rx :: "string \<Rightarrow> rx" where
  "profanity_rx word = seqs [WordB, Lit word, WordB]"

record analysis =
  safetyScore :: int
  isAcceptable :: bool
  a_violations :: "string list"
  hasProfanity :: bool
  hasSuspiciousPatterns :: bool
  recommendation :: string

definition analyzeContentSafety :: "string \<Rightarrow> last_indices \<Rightarrow> analysis \<times> last_indices" where
  "analyzeContentSafety content li =
     (case validateMessageContent content li of
        (validation, li') \<Rightarrow>
          (let suspicious = detectSuspiciousPatterns content;
               profanityCount =
                 length (filter (\<lambda>word. test_fresh True (profanity_rx word) content)
                           PROFANITY_WORDS);
               score = 100 - int (length (violations validation)) * 20
                           - int profanityCount * 15
                           - (if suspicious then 25 else 0);
               score = max 0 score
           in (\<lparr>safetyScore = score,
                isAcceptable = (score \<ge> 70),
                a_violations = violations validation,
                hasProfanity = (profanityCount > 0),
                hasSuspiciousPatterns = suspicious,
                recommendation = (if score \<ge> 70 then ''APPROVE'' else ''REJECT'')\<rparr>,
               li')))"

section \<open>Documents and process state\<close>

datatype role = artist | buyer | admin

record user =
  u_id :: user_id
  username :: string
  role :: role
  isVerified :: bool
  blockedUsers :: "user_id list"

text \<open>The identity that the gateway attaches to a socket carries no block list.\<close>

record socket_user =
  s_id :: user_id
  s_username :: string
  s_role :: role

datatype status = Sent | Delivered | Read

type_synonym message_id = nat

record message =
  m_id :: message_id
  sender :: user_id
  receiver :: user_id
  content :: string
  conversationId :: string
  timestamp :: nat
  read :: bool
  readAt :: "nat option"
  deleted :: bool
  deletedAt :: "nat option"
  messageStatus :: status

text \<open>
  What \<^verbatim>\<open>messageService.sendMessage\<close> returns as \<^verbatim>\<open>result.message\<close>: it has no status
  field until the socket handler adds one.
\<close>

record message_view =
  v_id :: message_id
  v_content :: string
  v_sender :: user_id
  v_receiver :: user_id
  v_timestamp :: nat
  v_read :: bool
  v_conversationId :: string
  v_messageStatus :: "status option"

text \<open>
  What a service or a controller throws or hands on: an \<^verbatim>\<open>AppError\<close> with its message
  and status code, or the error of a failed cast.
\<close>

datatype app_error = AppError string nat | CastError

datatype target = Socket user_id | Room string

datatype event =
    Ev_error string
  | Ev_message_error string "string list option"
  | Ev_message_sent message_view
  | Ev_new_message message_view
  | Ev_conversation_message message_view
  | Ev_user_typing user_id string bool
  | Ev_messages_read user_id string string
  | Ev_messages_marked_read user_id nat
  | Ev_user_block_toggled user_id string "user_id list"
  | Ev_conversation_blocked user_id string

text \<open>
  A pending timer of \<^verbatim>\<open>setTimeout\<close>: its handle, the time at which it is due, and the
  arguments its callback \<^verbatim>\<open>stopTyping(socket, otherUserId)\<close> holds.
\<close>

record timer =
  handle :: nat
  due :: nat
  t_socket :: socket_user
  t_other :: user_id

text \<open>
  The state the messaging code reads and writes: the user and message collections, the
  \<^verbatim>\<open>lastIndex\<close> of the filter's shared patterns, the presence map's keys, the chat
  handler's typing map, the rooms that sockets have joined, the pending timers, the clock
  in milliseconds, and the events emitted so far (oldest first). The user collection is
  keyed by the string form of the ids (24 lower-case hex digits). Database calls are
  taken to succeed once their arguments have been cast.
\<close>

record world =
  users :: "user_id \<rightharpoonup> user"
  messages :: "message list"
  next_id :: message_id
  patterns :: last_indices
  onlineUsers :: "user_id list"
  activeTyping :: "string \<rightharpoonup> nat"
  socketRooms :: "(user_id \<times> string) list"
  timers :: "timer list"
  next_handle :: nat
  clock :: nat
  outbox :: "(target \<times> event) list"

definition emit :: "target \<Rightarrow> event \<Rightarrow> world \<Rightarrow> world" where
  "emit t e w = w\<lparr>outbox := outbox w @ [(t, e)]\<rparr>"

text \<open>
  Where the schema declares an ObjectId, a string is cast before it is used: 24 hex digits
  in either case cast to the id, whose string form has lower-case digits; the cast of any
  other string fails with an exception. (The driver also accepts some strings of 12
  characters; they are outside the model.) \<^verbatim>\<open>User.findById\<close> casts its argument;
  comparisons written with \<^verbatim>\<open>===\<close> or \<^verbatim>\<open>includes\<close> take the string as it came.
\<close>

definition isMongoId :: "string \<Rightarrow> bool" where
  "isMongoId x = (length x = 24 \<and> list_all (\<lambda>c. c \<in> set ''0123456789abcdefABCDEF'') x)"

definition castObjectId :: "string \<Rightarrow> user_id option" where
  "castObjectId x = (if isMongoId x then Some (map lower_of x) else None)"

definition User_findById :: "world \<Rightarrow> string \<Rightarrow> app_error + user option" where
  "User_findById w x =
     (case castObjectId x of None \<Rightarrow> Inl CastError | Some i \<Rightarrow> Inr (users w i))"

definition Message_findById :: "world \<Rightarrow> message_id \<Rightarrow> message option" where
  "Message_findById w mid = find (\<lambda>m. m_id m = mid) (messages w)"

definition Message_updateMany :: "(message \<Rightarrow> bool) \<Rightarrow> (message \<Rightarrow> message) \<Rightarrow> world \<Rightarrow> world" where
  "Message_updateMany flt upd w = w\<lparr>messages := map (\<lambda>m. if flt m then upd m else m) (messages w)\<rparr>"

definition Message_findByIdAndUpdate :: "message_id \<Rightarrow> (message \<Rightarrow> message) \<Rightarrow> world \<Rightarrow> world" where
  "Message_findByIdAndUpdate mid upd w = Message_updateMany (\<lambda>m. m_id m = mid) upd w"

definition countDocuments :: "(message \<Rightarrow> bool) \<Rightarrow> world \<Rightarrow> nat" where
  "countDocuments flt w = length (filter flt (messages w))"

section \<open>Message service (services/messageService.js)\<close>

text \<open>
  \<^verbatim>\<open>String.prototype.replace\<close> with a \<^verbatim>\<open>g\<close> pattern: every match from left to right is
  replaced, the search going on where the match ended (one character further after an empty
  match). \<^verbatim>\<open>skip\<close> counts the characters of the current match still to pass.
\<close>

fun replace_go :: "bool \<Rightarrow> rx \<Rightarrow> string \<Rightarrow> nat \<Rightarrow> char option \<Rightarrow> string \<Rightarrow> string" where
  "replace_go ic r repl skip p [] =
     (if skip = 0 \<and> rx_m ic r (p, []) (\<lambda>y. Some (snd y)) \<noteq> None then repl else [])"
| "replace_go ic r repl skip p (c # cs) =
     (if skip > 0 then replace_go ic r repl (skip - 1) (Some c) cs
      else
        (case rx_m ic r (p, c # cs) (\<lambda>y. Some (snd y)) of
           None \<Rightarrow> c # replace_go ic r repl 0 (Some c) cs
         | Some rest \<Rightarrow>
             (if length (c # cs) - length rest = 0
              then repl @ c # replace_go ic r repl 0 (Some c) cs
              else repl @ replace_go ic r repl (length (c # cs) - length rest - 1) (Some c) cs)))"

definition replace_all :: "bool \<Rightarrow> rx \<Rightarrow> string \<Rightarrow> string \<Rightarrow> string" where
  "replace_all ic r repl s = replace_go ic r repl 0 None s"

definition trim :: "string \<Rightarrow> string" where
  "trim s = rev (dropWhile is_space (rev (dropWhile is_space s)))"

definition filterProfanity :: "string \<Rightarrow> string" where
  "filterProfanity c =
     foldl (\<lambda>filteredContent word.
              replace_all True (profanity_rx word) (replicate (length word) CHR ''*'')
                filteredContent)
       c PROFANITY_WORDS"

text \<open>
  The service has its own redaction, with pattern literals of its own: the e-mail, phone
  and handle patterns are those of the table, the link pattern has no \<^verbatim>\<open>www\<close> branch.
\<close>

definition service_url_rx :: rx where
  "service_url_rx = seqs [Lit ''http'', Opt (Lit ''s''), Lit ''://'', Cls non_space 1 None]"

definition filterMessageContent :: "string \<Rightarrow> string" where
  "filterMessageContent c =
     (let filteredContent = replace_all False (pattern_rx email) ''[CONTACT INFO REMOVED]'' c;
          filteredContent =
            replace_all False (pattern_rx phone) ''[CONTACT INFO REMOVED]'' filteredContent;
          filteredContent =
            replace_all False (pattern_rx socialHandle) ''[SOCIAL HANDLE REMOVED]'' filteredContent;
          filteredContent = replace_all False service_url_rx ''[LINK REMOVED]'' filteredContent
      in filterProfanity filteredContent)"

text \<open>
  \<^verbatim>\<open>Message.create\<close>: the schema casts sender and receiver, trims the content and
  requires it to be non-empty; a failure of any of these is an exception. The conversation
  id is a plain string and is stored as given. The other fields take the schema's defaults.
\<close>

definition Message_create ::
    "string \<Rightarrow> string \<Rightarrow> string \<Rightarrow> string \<Rightarrow> world \<Rightarrow> (message \<times> world) option" where
  "Message_create senderId receiverId c conv w =
     (case castObjectId senderId of
        None \<Rightarrow> None
      | Some s \<Rightarrow>
          (case castObjectId receiverId of
             None \<Rightarrow> None
           | Some r \<Rightarrow>
               if trim c = [] then None
               else
                 (let m = \<lparr>m_id = next_id w, sender = s, receiver = r,
                            content = trim c, conversationId = conv, timestamp = clock w,
                            read = False, readAt = None, deleted = False, deletedAt = None,
                            messageStatus = Sent\<rparr>
                  in Some (m, w\<lparr>messages := messages w @ [m], next_id := Suc (next_id w)\<rparr>))))"

definition view_of :: "message \<Rightarrow> message_view" where
  "view_of m =
     \<lparr>v_id = m_id m, v_content = content m, v_sender = sender m, v_receiver = receiver m,
      v_timestamp = timestamp m, v_read = read m, v_conversationId = conversationId m,
      v_messageStatus = None\<rparr>"

definition service_sendMessage ::
    "string \<Rightarrow> string \<Rightarrow> string \<Rightarrow> world \<Rightarrow> (app_error + message_view) \<times> world" where
  "service_sendMessage senderId receiverId c w =
     (let filteredContent = filterMessageContent c;
          conv = createConversationId senderId receiverId
      in case Message_create senderId receiverId filteredContent conv w of
           None \<Rightarrow> (Inl (AppError ''Failed to send message'' 500), w)
         | Some (m, w') \<Rightarrow> (Inr (view_of m), w'))"

text \<open>
  \<^verbatim>\<open>markMessagesAsRead\<close> is called with the id of the authenticated user, which is in
  string form already; the other id enters the conversation id as it came.
\<close>

definition markMessagesAsRead :: "user_id \<Rightarrow> string \<Rightarrow> world \<Rightarrow> world" where
  "markMessagesAsRead userId otherUserId w =
     Message_updateMany
       (\<lambda>m. conversationId m = createConversationId userId otherUserId \<and> receiver m = userId \<and>
            read m = False)
       (\<lambda>m. m\<lparr>read := True, readAt := Some (clock w)\<rparr>) w"

text \<open>
  \<^verbatim>\<open>deleteMessage\<close> throws its 404 and 403 errors inside its own \<^verbatim>\<open>try\<close> block; the
  \<^verbatim>\<open>catch\<close> of that block replaces whatever was thrown. Saving the document writes
  the two fields that were assigned.
\<close>

definition error_of :: "app_error + 'a \<Rightarrow> app_error option" where
  "error_of r = (case r of Inl e \<Rightarrow> Some e | Inr x \<Rightarrow> None)"

definition deleteMessage_body :: "message_id \<Rightarrow> user_id \<Rightarrow> world \<Rightarrow> app_error + world" where
  "deleteMessage_body messageId userId w =
     (case Message_findById w messageId of
        None \<Rightarrow> Inl (AppError ''Message not found'' 404)
      | Some m \<Rightarrow>
          if sender m \<noteq> userId then Inl (AppError ''You can only delete your own messages'' 403)
          else Inr (Message_updateMany (\<lambda>x. m_id x = messageId)
                      (\<lambda>x. x\<lparr>deleted := True, deletedAt := Some (clock w)\<rparr>) w))"

definition deleteMessage :: "message_id \<Rightarrow> user_id \<Rightarrow> world \<Rightarrow> (app_error + unit) \<times> world" where
  "deleteMessage messageId userId w =
     (case deleteMessage_body messageId userId w of
        Inl thrown \<Rightarrow> (Inl (AppError ''Failed to delete message'' 500), w)
      | Inr w' \<Rightarrow> (Inr (), w'))"

datatype block_action = blocked | unblocked

text \<open>
  \<^verbatim>\<open>toggleBlockUser\<close>: every exception inside its \<^verbatim>\<open>try\<close> block (a failed cast, a user
  that is not there) becomes the error 500 of its \<^verbatim>\<open>catch\<close>. The list is searched for
  the target string as it came; pushing casts it; saving writes the document under its id.
\<close>

definition toggleBlockUser ::
    "string \<Rightarrow> string \<Rightarrow> world \<Rightarrow> (app_error + block_action \<times> user_id list) \<times> world" where
  "toggleBlockUser userId targetUserId w =
     (case User_findById w userId of
        Inl e \<Rightarrow> (Inl (AppError ''Failed to toggle block user'' 500), w)
      | Inr None \<Rightarrow> (Inl (AppError ''Failed to toggle block user'' 500), w)
      | Inr (Some u) \<Rightarrow>
          if targetUserId \<in> set (blockedUsers u)
          then (let bl = filter (\<lambda>i. i \<noteq> targetUserId) (blockedUsers u)
                in (Inr (unblocked, bl),
                    w\<lparr>users := (users w)(u_id u \<mapsto> u\<lparr>blockedUsers := bl\<rparr>)\<rparr>))
          else
            (case castObjectId targetUserId of
               None \<Rightarrow> (Inl (AppError ''Failed to toggle block user'' 500), w)
             | Some t \<Rightarrow>
                 (let bl = blockedUsers u @ [t]
                  in (Inr (blocked, bl),
                      w\<lparr>users := (users w)(u_id u \<mapsto> u\<lparr>blockedUsers := bl\<rparr>)\<rparr>))))"

section \<open>Chat handler (sockets/chatHandler.js)\<close>

text \<open>
  A field of an event payload may be missing; \<^verbatim>\<open>!x\<close> holds of a missing field and of the
  empty string.
\<close>

definition falsy :: "string option \<Rightarrow> bool" where
  "falsy x = (case x of None \<Rightarrow> True | Some v \<Rightarrow> v = [])"

definition typingKey :: "user_id \<Rightarrow> user_id \<Rightarrow> string" where
  "typingKey a b = a @ ''_'' @ b"

definition user_room :: "user_id \<Rightarrow> target" where
  "user_room u = Room (''user_'' @ u)"

definition clearTimeout :: "nat \<Rightarrow> world \<Rightarrow> world" where
  "clearTimeout h w = w\<lparr>timers := filter (\<lambda>t. handle t \<noteq> h) (timers w)\<rparr>"

text \<open>
  \<^verbatim>\<open>stopTyping(socket, otherUserId, io = null)\<close>: the flag says whether the caller passed
  \<^verbatim>\<open>io\<close>; the notification is sent only then.
\<close>

definition stopTyping :: "socket_user \<Rightarrow> string option \<Rightarrow> bool \<Rightarrow> world \<Rightarrow> world" where
  "stopTyping su otherUserId io w =
     (case otherUserId of
        None \<Rightarrow> w
      | Some other \<Rightarrow>
          if other = [] then w
          else
            (let k = typingKey (s_id su) other;
                 w1 = (case activeTyping w k of
                         None \<Rightarrow> w
                       | Some h \<Rightarrow> (clearTimeout h w)\<lparr>activeTyping := (activeTyping w)(k := None)\<rparr>)
             in if io then emit (user_room other) (Ev_user_typing (s_id su) (s_username su) False) w1
                else w1))"

definition handleTypingStart :: "socket_user \<Rightarrow> string option \<Rightarrow> world \<Rightarrow> world" where
  "handleTypingStart su otherUserId w =
     (if falsy otherUserId \<or> otherUserId = Some (s_id su) then w
      else
        (let other = the otherUserId;
             k = typingKey (s_id su) other;
             w1 = (case activeTyping w k of None \<Rightarrow> w | Some h \<Rightarrow> clearTimeout h w);
             t = \<lparr>handle = next_handle w1, due = clock w1 + 3000, t_socket = su, t_other = other\<rparr>;
             w2 = w1\<lparr>timers := timers w1 @ [t], next_handle := Suc (next_handle w1),
                     activeTyping := (activeTyping w1)(k \<mapsto> handle t)\<rparr>
         in emit (user_room other) (Ev_user_typing (s_id su) (s_username su) True) w2))"

definition handleTypingStop :: "socket_user \<Rightarrow> string option \<Rightarrow> world \<Rightarrow> world" where
  "handleTypingStop su otherUserId w = stopTyping su otherUserId True w"

text \<open>
  Time passing: the clock moves on and every timer that is due and still pending runs its
  callback, in the order in which the timers were set. The callback that
  \<^verbatim>\<open>handleTypingStart\<close> registers is \<^verbatim>\<open>stopTyping(socket, otherUserId)\<close>, without \<^verbatim>\<open>io\<close>.
\<close>

fun fire :: "timer list \<Rightarrow> world \<Rightarrow> world" where
  "fire [] w = w"
| "fire (t # ts) w =
     (if handle t \<in> set (map handle (timers w))
      then fire ts (stopTyping (t_socket t) (Some (t_other t)) False (clearTimeout (handle t) w))
      else fire ts w)"

definition advance :: "nat \<Rightarrow> world \<Rightarrow> world" where
  "advance d w =
     (let w1 = w\<lparr>clock := clock w + d\<rparr>
      in fire (filter (\<lambda>t. due t \<le> clock w1) (timers w1)) w1)"

record send_data =
  receiverId :: "string option"
  d_content :: "string option"

definition handleSendMessage :: "socket_user \<Rightarrow> send_data \<Rightarrow> world \<Rightarrow> world" where
  "handleSendMessage su data w =
     (if falsy (receiverId data) \<or> falsy (d_content data) \<or> receiverId data = Some (s_id su)
      then emit (Socket (s_id su)) (Ev_message_error ''Invalid message data'' None) w
      else
        (let rid = the (receiverId data); c = the (d_content data)
         in case User_findById w rid of
              Inl e \<Rightarrow> emit (Socket (s_id su)) (Ev_message_error ''Failed to send message'' None) w
            | Inr None \<Rightarrow>
                emit (Socket (s_id su)) (Ev_message_error ''Receiver not found'' None) w
            | Inr (Some rcv) \<Rightarrow>
                if s_role su = role rcv
                then emit (Socket (s_id su))
                       (Ev_message_error ''You can only message users with different roles'' None) w
                else if s_id su \<in> set (blockedUsers rcv)
                then emit (Socket (s_id su)) (Ev_message_error ''Unable to send message'' None) w
                else
                  (case analyzeContentSafety c (patterns w) of
                     (safetyAnalysis, li) \<Rightarrow>
                       if \<not> isAcceptable safetyAnalysis
                       then emit (Socket (s_id su))
                              (Ev_message_error ''Message contains prohibited content''
                                 (Some (a_violations safetyAnalysis)))
                              (w\<lparr>patterns := li\<rparr>)
                       else
                         (case service_sendMessage (s_id su) rid c (w\<lparr>patterns := li\<rparr>) of
                            (Inl err, w1) \<Rightarrow>
                              emit (Socket (s_id su))
                                (Ev_message_error ''Failed to send message'' None) w1
                          | (Inr v, w1) \<Rightarrow>
                              (let online = (rid \<in> set (onlineUsers w1));
                                   w2 = (if online
                                         then Message_findByIdAndUpdate (v_id v)
                                                (\<lambda>m. m\<lparr>messageStatus := Delivered\<rparr>) w1
                                         else w1);
                                   v2 = (if online then v\<lparr>v_messageStatus := Some Delivered\<rparr> else v);
                                   w3 = stopTyping su (Some rid) True w2;
                                   w4 = emit (Socket (s_id su)) (Ev_message_sent v2) w3;
                                   w5 = emit (user_room rid) (Ev_new_message v2) w4
                               in emit (Room (''conversation_'' @ createConversationId (s_id su) rid))
                                    (Ev_conversation_message v2) w5)))))"

text \<open>
  \<^verbatim>\<open>handleMarkAsRead\<close>: after the check of the payload, the \<^verbatim>\<open>try\<close> block computes the
  conversation id through \<^verbatim>\<open>Message\<close> (line 295) and, further down in the same block,
  declares \<^verbatim>\<open>const Message = require(...)\<close> (line 301). A \<^verbatim>\<open>const\<close> belongs to its whole
  block and cannot be read before its declaration has run, so line 295 throws a
  ReferenceError on every call that passes the check. The statements after it (the
  update of the messages and the two notifications) are kept below as the continuation that
  the exception skips; the \<^verbatim>\<open>catch\<close> emits the error event.
\<close>

datatype js_error = ReferenceError string

definition read_before_declaration :: "string \<Rightarrow> js_error + 'a" where
  "read_before_declaration name =
     Inl (ReferenceError (''Cannot access '' @ name @ '' before initialization''))"

definition markAsRead_update :: "socket_user \<Rightarrow> user_id \<Rightarrow> string \<Rightarrow> world \<Rightarrow> world" where
  "markAsRead_update su other conv w =
     (let w1 = Message_updateMany
                 (\<lambda>m. conversationId m = conv \<and> receiver m = s_id su \<and> read m = False)
                 (\<lambda>m. m\<lparr>read := True, readAt := Some (clock w), messageStatus := Read\<rparr>) w;
          w2 = emit (user_room other)
                 (Ev_messages_read (s_id su) (s_username su)
                    (createConversationId (s_id su) other)) w1
      in emit (Socket (s_id su)) (Ev_messages_marked_read other (clock w)) w2)"

definition handleMarkAsRead_try :: "socket_user \<Rightarrow> user_id \<Rightarrow> world \<Rightarrow> js_error + world" where
  "handleMarkAsRead_try su other w =
     (case read_before_declaration ''Message'' of
        Inl e \<Rightarrow> Inl e
      | Inr conv \<Rightarrow> Inr (markAsRead_update su other conv w))"

definition handleMarkAsRead :: "socket_user \<Rightarrow> string option \<Rightarrow> world \<Rightarrow> world" where
  "handleMarkAsRead su otherUserId w =
     (if falsy otherUserId \<or> otherUserId = Some (s_id su)
      then emit (Socket (s_id su)) (Ev_message_error ''Invalid user ID'' None) w
      else
        (case handleMarkAsRead_try su (the otherUserId) w of
           Inl e \<Rightarrow> emit (Socket (s_id su)) (Ev_error ''Failed to mark messages as read'') w
         | Inr w' \<Rightarrow> w'))"

definition handleBlockUser :: "socket_user \<Rightarrow> string option \<Rightarrow> world \<Rightarrow> world" where
  "handleBlockUser su targetUserId w =
     (if falsy targetUserId \<or> targetUserId = Some (s_id su)
      then emit (Socket (s_id su)) (Ev_error ''Invalid target user ID'') w
      else
        (let tgt = the targetUserId
         in case toggleBlockUser (s_id su) tgt w of
              (Inl err, w1) \<Rightarrow> emit (Socket (s_id su)) (Ev_error ''Failed to block/unblock user'') w1
            | (Inr (action, bl), w1) \<Rightarrow>
                (let w2 = emit (Socket (s_id su))
                            (Ev_user_block_toggled tgt
                               (if action = blocked then ''blocked'' else ''unblocked'') bl) w1
                 in if action = blocked
                    then
                      (let conv = createConversationId (s_id su) tgt;
                           w3 = w2\<lparr>socketRooms :=
                                   filter (\<lambda>x. x \<noteq> (s_id su, ''conversation_'' @ conv)) (socketRooms w2)\<rparr>
                       in emit (user_room tgt) (Ev_conversation_blocked (s_id su) conv) w3)
                    else w2)))"

section \<open>REST entry points (validators/messageValidator.js, controllers/messageController.js)\<close>

text \<open>
  The validation chain of the send route: it yields the trimmed content when every check
  passes; otherwise the route answers 400 and the controller does not run. A receiver id
  that is not 24 hex digits fails the chain, at the latest where the lookup casts it.
\<close>

definition validateSendMessage :: "user \<Rightarrow> string \<Rightarrow> string \<Rightarrow> world \<Rightarrow> string option" where
  "validateSendMessage req_user rid c w =
     (if \<not> isMongoId rid then None
      else
        (case User_findById w rid of
           Inl e \<Rightarrow> None
         | Inr None \<Rightarrow> None
         | Inr (Some rcv) \<Rightarrow>
             if \<not> isVerified rcv then None
             else if rid = u_id req_user then None
             else if \<not> (1 \<le> length (trim c) \<and> length (trim c) \<le> 1000) then None
             else if list_ex (\<lambda>x. x \<in> set ''<>{}'') (trim c) then None
             else Some (trim c)))"

text \<open>
  The controllers hand an exception of their lookup to \<^verbatim>\<open>next\<close> as it is. The sender's
  own block list is searched for the receiver string as it came.
\<close>

definition sendMessage :: "user \<Rightarrow> string \<Rightarrow> string \<Rightarrow> world \<Rightarrow> (app_error + message_view) \<times> world" where
  "sendMessage req_user rid c w =
     (case User_findById w rid of
        Inl e \<Rightarrow> (Inl e, w)
      | Inr None \<Rightarrow> (Inl (AppError ''Receiver not found'' 404), w)
      | Inr (Some rcv) \<Rightarrow>
          if role req_user = role rcv
          then (Inl (AppError ''You cannot send messages to users with the same role'' 403), w)
          else if u_id req_user \<in> set (blockedUsers rcv)
          then (Inl (AppError ''Unable to send message'' 403), w)
          else if rid \<in> set (blockedUsers req_user)
          then (Inl (AppError ''You have blocked the receiver'' 403), w)
          else service_sendMessage (u_id req_user) rid c w)"

definition post_send :: "user \<Rightarrow> string \<Rightarrow> string \<Rightarrow> world \<Rightarrow> (app_error + message_view) \<times> world" where
  "post_send req_user rid c w =
     (case validateSendMessage req_user rid c w of
        None \<Rightarrow> (Inl (AppError ''Validation failed'' 400), w)
      | Some c' \<Rightarrow> sendMessage req_user rid c' w)"

definition toggleBlockUser_controller ::
    "user \<Rightarrow> string \<Rightarrow> world \<Rightarrow> (app_error + block_action \<times> user_id list) \<times> world" where
  "toggleBlockUser_controller req_user tgt w =
     (case User_findById w tgt of
        Inl e \<Rightarrow> (Inl e, w)
      | Inr None \<Rightarrow> (Inl (AppError ''User not found'' 404), w)
      | Inr (Some t) \<Rightarrow>
          if role req_user = role t
          then (Inl (AppError ''You cannot block users with the same role'' 403), w)
          else toggleBlockUser (u_id req_user) tgt w)"

section \<open>Operations and runs\<close>

text \<open>
  The operations on the shared state. A socket send awaits the database between creating
  the message and upgrading it to delivered, so other operations can run in between:
  \<open>Op_create\<close> and \<open>Op_deliver\<close> are these two writes on their own, the second one for any
  message id at any time.
\<close>

datatype op =
    Op_socket_send socket_user send_data
  | Op_rest_send user string string
  | Op_create string string string
  | Op_deliver message_id
  | Op_socket_read socket_user "string option"
  | Op_rest_read user_id string
  | Op_delete message_id user_id
  | Op_socket_block socket_user "string option"
  | Op_rest_block user string
  | Op_typing_start socket_user "string option"
  | Op_typing_stop socket_user "string option"
  | Op_advance nat

fun apply_op :: "op \<Rightarrow> world \<Rightarrow> world" where
  "apply_op (Op_socket_send su data) w = handleSendMessage su data w"
| "apply_op (Op_rest_send u rid c) w = snd (post_send u rid c w)"
| "apply_op (Op_create a b c) w = snd (service_sendMessage a b c w)"
| "apply_op (Op_deliver mid) w =
     Message_findByIdAndUpdate mid (\<lambda>m. m\<lparr>messageStatus := Delivered\<rparr>) w"
| "apply_op (Op_socket_read su other) w = handleMarkAsRead su other w"
| "apply_op (Op_rest_read a b) w = markMessagesAsRead a b w"
| "apply_op (Op_delete mid a) w = snd (deleteMessage mid a w)"
| "apply_op (Op_socket_block su tgt) w = handleBlockUser su tgt w"
| "apply_op (Op_rest_block u tgt) w = snd (toggleBlockUser_controller u tgt w)"
| "apply_op (Op_typing_start su other) w = handleTypingStart su other w"
| "apply_op (Op_typing_stop su other) w = handleTypingStop su other w"
| "apply_op (Op_advance d) w = advance d w"

fun run :: "op list \<Rightarrow> world \<Rightarrow> world" where
  "run [] w = w"
| "run (x # xs) w = run xs (apply_op x w)"

fun status_rank :: "status \<Rightarrow> nat" where
  "status_rank Sent = 0"
| "status_rank Delivered = 1"
| "status_rank Read = 2"

text \<open>
  A later state of the collection does not regress an earlier one: every message of the
  earlier state is still there, at the same place and with the same id, and its status has
  not moved back.
\<close>

definition no_regress :: "message list \<Rightarrow> message list \<Rightarrow> bool" where
  "no_regress ms ms' =
     (length ms \<le> length ms' \<and>
      list_all2 (\<lambda>m m'. m_id m' = m_id m \<and>
                   status_rank (messageStatus m) \<le> status_rank (messageStatus m'))
        ms (take (length ms) ms'))"

definition never_read :: "message list \<Rightarrow> bool" where
  "never_read ms = list_all (\<lambda>m. messageStatus m \<noteq> Read) ms"

text \<open>
  Auxiliary notions for the proof: an update of single messages that keeps the id and
  either keeps the status or sets it to delivered, and a change of the collection that
  applies such an update and appends messages that are not read.
\<close>

definition mild :: "(message \<Rightarrow> message) \<Rightarrow> bool" where
  "mild f = (\<forall>m. m_id (f m) = m_id m \<and>
                 (messageStatus (f m) = messageStatus m \<or> messageStatus (f m) = Delivered))"

definition safe_update :: "message list \<Rightarrow> message list \<Rightarrow> bool" where
  "safe_update ms ms' = (\<exists>f new. mild f \<and> never_read new \<and> ms' = map f ms @ new)"

section \<open>Quantities of the safety score\<close>

text \<open>
  The patterns that \<^verbatim>\<open>validateMessageContent\<close> tests, in its order; whether a pattern
  occurs somewhere in the text; and the number of configured profane words that occur in
  the text.
\<close>

definition checkedPatterns :: "pattern_key list" where
  "checkedPatterns = [email, phone, url, socialHandle] @ platformKeys"

definition pattern_occurs :: "string \<Rightarrow> pattern_key \<Rightarrow> bool" where
  "pattern_occurs c k = test_fresh (pattern_ignoreCase k) (pattern_rx k) c"

text \<open>Auxiliary, for the proof: the verdict of one test in a given state of the patterns.\<close>

definition pattern_hits :: "string \<Rightarrow> last_indices \<Rightarrow> pattern_key \<Rightarrow> bool" where
  "pattern_hits c li k = fst (regexp_test (pattern_ignoreCase k) (pattern_rx k) (li k) c)"

definition profanityCount :: "string \<Rightarrow> nat" where
  "profanityCount c =
     length (filter (\<lambda>word. test_fresh True (profanity_rx word) c) PROFANITY_WORDS)"

text \<open>Two calls of the analyzer in succession on the same text: both results.\<close>

definition analyze_twice :: "string \<Rightarrow> last_indices \<Rightarrow> analysis \<times> analysis" where
  "analyze_twice c li =
     (fst (analyzeContentSafety c li),
      fst (analyzeContentSafety c (snd (analyzeContentSafety c li))))"

section \<open>A concrete marketplace\<close>

text \<open>Two artists and a buyer, all verified, nobody blocked, no message yet.\<close>

definition alice_id :: user_id where "alice_id = ''64b7f0c2a1d3e4f5a6b7c8d1''"
definition bob_id :: user_id where "bob_id = ''64b7f0c2a1d3e4f5a6b7c8d2''"
definition carol_id :: user_id where "carol_id = ''64b7f0c2a1d3e4f5a6b7c8d3''"

definition alice :: user where
  "alice = \<lparr>u_id = alice_id, username = ''alice'', role = artist, isVerified = True,
            blockedUsers = []\<rparr>"

definition bob :: user where
  "bob = \<lparr>u_id = bob_id, username = ''bob'', role = buyer, isVerified = True,
          blockedUsers = []\<rparr>"

definition carol :: user where
  "carol = \<lparr>u_id = carol_id, username = ''carol'', role = artist, isVerified = True,
            blockedUsers = []\<rparr>"

definition socket_of :: "user \<Rightarrow> socket_user" where
  "socket_of u = \<lparr>s_id = u_id u, s_username = username u, s_role = role u\<rparr>"

definition world0 :: world where
  "world0 =
     \<lparr>users = map_of [(alice_id, alice), (bob_id, bob), (carol_id, carol)],
      messages = [], next_id = 0, patterns = fresh_patterns, onlineUsers = [],
      activeTyping = Map.empty, socketRooms = [], timers = [], next_handle = 0, clock = 1000,
      outbox = []\<rparr>"

text \<open>Alice has blocked Bob.\<close>

definition alice_blocking :: user where
  "alice_blocking = alice\<lparr>blockedUsers := [bob_id]\<rparr>"

definition world_blocked :: world where
  "world_blocked = world0\<lparr>users := (users world0)(alice_id \<mapsto> alice_blocking)\<rparr>"

text \<open>Bob has sent Alice one message, which she has not read.\<close>

definition hello :: message where
  "hello =
     \<lparr>m_id = 0, sender = bob_id, receiver = alice_id, content = ''Hello'',
      conversationId = createConversationId bob_id alice_id, timestamp = 500,
      read = False, readAt = None, deleted = False, deletedAt = None, messageStatus = Sent\<rparr>"

definition world_unread :: world where
  "world_unread = world0\<lparr>messages := [hello], next_id := 1\<rparr>"

text \<open>The two payloads that Alice sends to Bob in the examples.\<close>

definition reach_me :: send_data where
  "reach_me = \<lparr>receiverId = Some bob_id, d_content = Some ''reach me at a@b.com''\<rparr>"

definition say_hello :: send_data where
  "say_hello = \<lparr>receiverId = Some bob_id, d_content = Some ''Hello''\<rparr>"

section \<open>Properties\<close>

subsection \<open>Conversation identifiers\<close>

text \<open>
  C9: createConversationId(a, b) equals createConversationId(b, a) for every two ids, and
  the result is the lexicographically smaller id, one underscore, then the larger id.
\<close>

theorem createConversationId_commutes_sorted:
  "createConversationId a b = createConversationId b a \<and>
   createConversationId a b = min a b @ ''_'' @ max a b"
  by (auto simp: createConversationId_def min_def max_def)

subsection \<open>The safety score\<close>

lemma check_pattern_fst:
  "fst (check_pattern k msg c acc) = fst acc @ (if pattern_hits c (snd acc) k then [msg] else [])"
  by (simp add: check_pattern_def test_pattern_def pattern_hits_def split: prod.split)

lemma check_pattern_snd:
  "snd (check_pattern k msg c acc) =
     (snd acc)(k := snd (regexp_test (pattern_ignoreCase k) (pattern_rx k) (snd acc k) c))"
  by (simp add: check_pattern_def test_pattern_def split: prod.split)

lemma pattern_hits_upd: "k' \<noteq> k \<Longrightarrow> pattern_hits c (li(k' := n)) k = pattern_hits c li k"
  by (simp add: pattern_hits_def)

lemma phrase_fold:
  "foldl (\<lambda>v p. if P p then v @ [m] else v) vs ps = vs @ replicate (length (filter P ps)) m"
  by (induction ps arbitrary: vs) (simp_all add: replicate_app_Cons_same)

lemma length_single_if: "length (if b then [m] else []) = of_bool b"
  by simp

lemma length_filter_of_bool: "length (filter P (x # xs)) = of_bool (P x) + length (filter P xs)"
  by simp

lemma validate_violations_length:
  "length (violations (fst (validateMessageContent c li))) =
     length (filter (pattern_hits c li) checkedPatterns) +
     length (filter (includes_str (toLowerCase c)) CONTACT_PHRASES)"
  unfolding validateMessageContent_def Let_def platformKeys_def checkedPatterns_def
  by (simp only: foldl.simps check_pattern_fst check_pattern_snd phrase_fold fst_conv snd_conv
        length_append length_replicate length_single_if length_filter_of_bool append.simps
        filter.simps(1) list.size validation.simps pattern_hits_upd pattern_key.distinct
        simp_thms add_0_right)

lemma analyze_fst:
  "fst (analyzeContentSafety c li) =
     (let v = violations (fst (validateMessageContent c li));
          score = max 0 (100 - int (length v) * 20 - int (profanityCount c) * 15
                           - (if detectSuspiciousPatterns c then 25 else 0))
      in \<lparr>safetyScore = score, isAcceptable = (score \<ge> 70), a_violations = v,
          hasProfanity = (profanityCount c > 0),
          hasSuspiciousPatterns = detectSuspiciousPatterns c,
          recommendation = (if score \<ge> 70 then ''APPROVE'' else ''REJECT'')\<rparr>)"
proof (cases "validateMessageContent c li")
  case (Pair v li')
  then show ?thesis
    unfolding analyzeContentSafety_def profanityCount_def Let_def
    by (simp only: prod.case fst_conv)
qed

lemma pattern_hits_fresh: "pattern_hits c fresh_patterns = pattern_occurs c"
  by (rule ext) (simp add: pattern_hits_def pattern_occurs_def test_fresh_def fresh_patterns_def)

text \<open>
  C5, as the code is designed: for a text analysed with freshly loaded patterns, the score
  is 100, minus 20 for every entry of the violations list, minus 15 for every configured
  profane word that occurs, minus 25 if a suspicious pattern matches, and not below 0; the
  text is acceptable exactly when the score is at least 70. The list has one entry for
  every tested pattern that occurs in the text (the e-mail, phone, link and handle patterns
  and each of the seven platform patterns count separately) and one for every contact
  phrase that the lower-cased text contains.
\<close>

theorem analyzeContentSafety_score_fresh:
  "safetyScore (fst (analyzeContentSafety c fresh_patterns)) =
     max 0 (100
            - 20 * (int (length (filter (pattern_occurs c) checkedPatterns)) +
                    int (length (filter (includes_str (toLowerCase c)) CONTACT_PHRASES)))
            - 15 * int (profanityCount c)
            - (if detectSuspiciousPatterns c then 25 else 0)) \<and>
   isAcceptable (fst (analyzeContentSafety c fresh_patterns)) =
     (70 \<le> safetyScore (fst (analyzeContentSafety c fresh_patterns))) \<and>
   safetyScore (fst (analyzeContentSafety c fresh_patterns)) \<le> 100"
proof -
  have len: "int (length (violations (fst (validateMessageContent c fresh_patterns)))) =
      int (length (filter (pattern_occurs c) checkedPatterns)) +
      int (length (filter (includes_str (toLowerCase c)) CONTACT_PHRASES))"
    by (simp only: validate_violations_length pattern_hits_fresh of_nat_add)
  show ?thesis
    unfolding analyze_fst Let_def analysis.simps len
    by (simp add: algebra_simps)
qed

text \<open>
  C5, as stated (20 per distinct violation category), fails: the text below contains two
  contact phrases, ``outside this app'' and ``meet outside''. Both give the same violation
  of the one category of direct-contact requests, nothing else is found, and the score is
  60, not 80; the text is rejected.
\<close>

theorem analyzeContentSafety_distinct_category_counterexample:
  "fst (analyzeContentSafety ''meet outside this app'' fresh_patterns) =
     \<lparr>safetyScore = 60, isAcceptable = False,
      a_violations = [''Requests for direct contact are not allowed'',
                      ''Requests for direct contact are not allowed''],
      hasProfanity = False, hasSuspiciousPatterns = False, recommendation = ''REJECT''\<rparr> \<and>
   safetyScore (fst (analyzeContentSafety ''meet outside this app'' fresh_patterns)) \<noteq>
     max 0 (100 - 20 * int (card (set (a_violations
        (fst (analyzeContentSafety ''meet outside this app'' fresh_patterns))))))"
  by code_simp

text \<open>
  C10: the analyzer called twice in succession on the same text. Started from freshly
  loaded patterns, the first call on \<^verbatim>\<open>a@b.com\<close> finds the address and the handle
  \<^verbatim>\<open>@b\<close>, scores 60 and rejects; it leaves the two patterns with \<^verbatim>\<open>lastIndex\<close> 7 and 3,
  so the second call searches behind the matches, finds nothing, scores 100 and accepts.
\<close>

theorem analyzeContentSafety_repeat_differs:
  "analyze_twice ''a@b.com'' fresh_patterns =
     (\<lparr>safetyScore = 60, isAcceptable = False,
       a_violations = [''Email addresses are not allowed'',
                       ''Social media handles are not allowed''],
       hasProfanity = False, hasSuspiciousPatterns = False, recommendation = ''REJECT''\<rparr>,
      \<lparr>safetyScore = 100, isAcceptable = True, a_violations = [],
       hasProfanity = False, hasSuspiciousPatterns = False, recommendation = ''APPROVE''\<rparr>)"
  by code_simp

subsection \<open>Delivery status\<close>

lemma mild_id: "mild (\<lambda>m. m)"
  by (simp add: mild_def)

lemma mild_if: "mild f \<Longrightarrow> mild (\<lambda>m. if P m then f m else m)"
  by (simp add: mild_def)

lemma mild_deliver: "mild (\<lambda>m. m\<lparr>messageStatus := Delivered\<rparr>)"
  by (simp add: mild_def)

lemma mild_read: "mild (\<lambda>m. m\<lparr>read := True, readAt := t\<rparr>)"
  by (simp add: mild_def)

lemma mild_delete: "mild (\<lambda>m. m\<lparr>deleted := True, deletedAt := t\<rparr>)"
  by (simp add: mild_def)

lemma safe_update_refl: "safe_update ms ms"
  unfolding safe_update_def
  by (rule exI[of _ "\<lambda>m. m"], rule exI[of _ "[]"]) (simp add: mild_id never_read_def)

lemma safe_update_map: "mild f \<Longrightarrow> safe_update ms (map f ms)"
  unfolding safe_update_def
  by (rule exI[of _ f], rule exI[of _ "[]"]) (simp add: never_read_def)

lemma safe_update_snoc:
  "mild f \<Longrightarrow> messageStatus (f m) \<noteq> Read \<Longrightarrow> safe_update ms (map f (ms @ [m]))"
  unfolding safe_update_def
  by (rule exI[of _ f], rule exI[of _ "[f m]"]) (simp add: never_read_def)

lemma safe_update_never_read:
  assumes "safe_update ms ms'" "never_read ms"
  shows "never_read ms'"
proof -
  from assms(1) obtain f new where f: "mild f" and n: "never_read new" and e: "ms' = map f ms @ new"
    unfolding safe_update_def by blast
  have "messageStatus (f m) \<noteq> Read" if "messageStatus m \<noteq> Read" for m
    using f that unfolding mild_def by (metis status.distinct(5))
  with assms(2) have "never_read (map f ms)"
    unfolding never_read_def by (induction ms) auto
  with n e show ?thesis by (simp add: never_read_def)
qed

lemma rank_mild:
  "mild f \<Longrightarrow> messageStatus m \<noteq> Read \<Longrightarrow>
   status_rank (messageStatus m) \<le> status_rank (messageStatus (f m))"
  unfolding mild_def by (cases "messageStatus m") (metis le_refl status_rank.simps le0 One_nat_def)+

lemma safe_update_no_regress:
  assumes "safe_update ms ms'" "never_read ms"
  shows "no_regress ms ms'"
proof -
  from assms(1) obtain f new where f: "mild f" and e: "ms' = map f ms @ new"
    unfolding safe_update_def by blast
  have "list_all2 (\<lambda>m m'. m_id m' = m_id m \<and>
           status_rank (messageStatus m) \<le> status_rank (messageStatus m')) ms (map f ms)"
    using assms(2) unfolding never_read_def
  proof (induction ms)
    case Nil
    show ?case by simp
  next
    case (Cons a ms)
    then show ?case using f rank_mild[OF f, of a] by (simp add: mild_def)
  qed
  then show ?thesis by (simp add: no_regress_def e)
qed

lemma no_regress_refl: "no_regress ms ms"
  by (simp add: no_regress_def list_all2_same)

lemma no_regress_trans:
  assumes "no_regress a b" "no_regress b c"
  shows "no_regress a c"
proof -
  let ?R = "\<lambda>m m'. m_id m' = m_id m \<and>
                   status_rank (messageStatus m) \<le> status_rank (messageStatus m')"
  from assms have l: "length a \<le> length b" "length b \<le> length c"
    and ab: "list_all2 ?R a (take (length a) b)" and bc: "list_all2 ?R b (take (length b) c)"
    by (simp_all add: no_regress_def)
  from bc have "list_all2 ?R (take (length a) b) (take (length a) (take (length b) c))"
    by (rule list_all2_takeI)
  with l have "list_all2 ?R (take (length a) b) (take (length a) c)"
    by (simp add: min_def)
  with ab have "list_all2 ?R a (take (length a) c)"
    by (rule list_all2_trans[rotated]) auto
  with l show ?thesis by (simp add: no_regress_def)
qed


lemma messages_emit [simp]: "messages (emit t e w) = messages w"
  by (simp add: emit_def)

lemma messages_clearTimeout [simp]: "messages (clearTimeout h w) = messages w"
  by (simp add: clearTimeout_def)

lemma messages_stopTyping [simp]: "messages (stopTyping su other io w) = messages w"
  by (simp add: stopTyping_def Let_def split: option.split)

lemma messages_updateMany [simp]:
  "messages (Message_updateMany flt upd w) = map (\<lambda>m. if flt m then upd m else m) (messages w)"
  by (simp add: Message_updateMany_def)

lemma messages_fire [simp]: "messages (fire ts w) = messages w"
  by (induction ts arbitrary: w) simp_all

lemma messages_advance [simp]: "messages (advance d w) = messages w"
  by (simp add: advance_def Let_def)

lemma messages_handleTypingStart [simp]: "messages (handleTypingStart su other w) = messages w"
  by (simp add: handleTypingStart_def Let_def split: option.split)

lemma messages_toggleBlockUser [simp]: "messages (snd (toggleBlockUser a b w)) = messages w"
  by (simp add: toggleBlockUser_def Let_def split: option.split sum.split)

lemma messages_handleBlockUser [simp]: "messages (handleBlockUser su tgt w) = messages w"
proof -
  have "messages (snd (toggleBlockUser (s_id su) (the tgt) w)) = messages w"
    by simp
  then show ?thesis
    by (cases "toggleBlockUser (s_id su) (the tgt) w")
       (auto simp: handleBlockUser_def Let_def split: sum.split prod.split)
qed

lemma messages_handleMarkAsRead [simp]: "messages (handleMarkAsRead su other w) = messages w"
  by (simp add: handleMarkAsRead_def handleMarkAsRead_try_def read_before_declaration_def)

lemma service_sendMessage_messages:
  "messages (snd (service_sendMessage a b c w)) = messages w \<or>
   (\<exists>m. messageStatus m = Sent \<and> m_id m = next_id w \<and>
        fst (service_sendMessage a b c w) = Inr (view_of m) \<and>
        messages (snd (service_sendMessage a b c w)) = messages w @ [m])"
  by (simp add: service_sendMessage_def Message_create_def Let_def split: option.split)

lemma safe_service_sendMessage:
  "safe_update (messages w) (messages (snd (service_sendMessage a b c w)))"
proof -
  from service_sendMessage_messages[of a b c w] show ?thesis
  proof
    assume "messages (snd (service_sendMessage a b c w)) = messages w"
    then show ?thesis by (simp add: safe_update_refl)
  next
    assume "\<exists>m. messageStatus m = Sent \<and> m_id m = next_id w \<and>
        fst (service_sendMessage a b c w) = Inr (view_of m) \<and>
        messages (snd (service_sendMessage a b c w)) = messages w @ [m]"
    then obtain m where "messageStatus m = Sent"
      "messages (snd (service_sendMessage a b c w)) = messages w @ [m]" by blast
    then show ?thesis
      using safe_update_snoc[OF mild_id, of m "messages w"] by simp
  qed
qed

lemma safe_post_send: "safe_update (messages w) (messages (snd (post_send u rid c w)))"
  by (auto simp: post_send_def sendMessage_def safe_update_refl safe_service_sendMessage
           split: option.split sum.split)

lemma safe_deleteMessage: "safe_update (messages w) (messages (snd (deleteMessage mid a w)))"
  by (auto simp: deleteMessage_def deleteMessage_body_def safe_update_refl
           intro!: safe_update_map mild_if mild_delete split: option.split sum.split)

lemma safe_markMessagesAsRead: "safe_update (messages w) (messages (markMessagesAsRead a b w))"
  by (auto simp: markMessagesAsRead_def intro!: safe_update_map mild_if mild_read)

lemma safe_deliver:
  "safe_update (messages w)
     (messages (Message_findByIdAndUpdate mid (\<lambda>m. m\<lparr>messageStatus := Delivered\<rparr>) w))"
  by (auto simp: Message_findByIdAndUpdate_def intro!: safe_update_map mild_if mild_deliver)

lemma safe_handleSendMessage:
  "safe_update (messages w) (messages (handleSendMessage su data w))"
proof (cases "analyzeContentSafety (the (d_content data)) (patterns w)")
  case (Pair an li)
  let ?w1 = "w\<lparr>patterns := li\<rparr>"
  let ?s = "service_sendMessage (s_id su) (the (receiverId data)) (the (d_content data)) ?w1"
  obtain r w2 where s: "?s = (r, w2)" by (cases ?s)
  have m1: "messages ?w1 = messages w" by simp
  from service_sendMessage_messages[of "s_id su" "the (receiverId data)" "the (d_content data)" ?w1]
  have shape: "messages w2 = messages w \<or>
     (\<exists>m. messageStatus m = Sent \<and> r = Inr (view_of m) \<and> messages w2 = messages w @ [m])"
    using s m1 by auto
  have upd: "safe_update (messages w)
       (map (\<lambda>m. if m_id m = i then m\<lparr>messageStatus := Delivered\<rparr> else m) (messages w2))" for i
    using shape
  proof
    assume "messages w2 = messages w"
    then show ?thesis by (auto intro!: safe_update_map mild_if mild_deliver)
  next
    assume "\<exists>m. messageStatus m = Sent \<and> r = Inr (view_of m) \<and> messages w2 = messages w @ [m]"
    then obtain m where "messageStatus m = Sent" "messages w2 = messages w @ [m]" by blast
    then show ?thesis
      using safe_update_snoc[OF mild_if[OF mild_deliver], of "\<lambda>m. m_id m = i" m "messages w"]
      by auto
  qed
  have plain: "safe_update (messages w) (messages w2)"
    using safe_service_sendMessage[of ?w1 "s_id su" "the (receiverId data)" "the (d_content data)"] s
    by simp
  show ?thesis
    using Pair s upd plain
    by (auto simp: handleSendMessage_def Let_def safe_update_refl Message_findByIdAndUpdate_def
             split: option.split sum.split)
qed

lemma safe_apply_op: "safe_update (messages w) (messages (apply_op x w))"
  by (cases x)
     (simp_all add: safe_update_refl safe_handleSendMessage safe_post_send
        safe_service_sendMessage safe_deliver safe_markMessagesAsRead safe_deleteMessage
        handleTypingStop_def toggleBlockUser_controller_def split: option.split sum.split)

lemma never_read_run: "never_read (messages w) \<Longrightarrow> never_read (messages (run xs w))"
  by (induction xs arbitrary: w) (auto intro: safe_update_never_read[OF safe_apply_op])

lemma no_regress_run: "never_read (messages w) \<Longrightarrow> no_regress (messages w) (messages (run xs w))"
proof (induction xs arbitrary: w)
  case Nil
  show ?case by (simp add: no_regress_refl)
next
  case (Cons x xs)
  have 1: "no_regress (messages w) (messages (apply_op x w))"
    using safe_update_no_regress[OF safe_apply_op Cons.prems] .
  have "never_read (messages (apply_op x w))"
    using safe_update_never_read[OF safe_apply_op Cons.prems] .
  then have "no_regress (messages (apply_op x w)) (messages (run xs (apply_op x w)))"
    by (rule Cons.IH)
  with 1 show ?case by (auto intro: no_regress_trans)
qed

text \<open>
  A remark on the statements that \<^verbatim>\<open>handleMarkAsRead\<close> never reaches: their update
  writes the status ``read'', and a delivered-upgrade after it would move the status back.
  The invariant below holds because no reachable statement writes ``read''.
\<close>

lemma unreached_update_would_regress:
  "map messageStatus
     (messages (markAsRead_update (socket_of alice) bob_id
                  (createConversationId alice_id bob_id) world_unread)) = [Read] \<and>
   \<not> no_regress
       (messages (markAsRead_update (socket_of alice) bob_id
                    (createConversationId alice_id bob_id) world_unread))
       (messages (apply_op (Op_deliver 0)
                    (markAsRead_update (socket_of alice) bob_id
                       (createConversationId alice_id bob_id) world_unread)))"
  by code_simp

text \<open>
  C6: starting from an empty message collection, after any sequence of operations and any
  further sequence after it, every message stored at the earlier point is still stored
  with the same id and its delivery status has not moved back. (The only status writes
  that the code performs are the default at creation and the upgrade to delivered.)
\<close>

theorem status_never_regresses:
  "messages w = [] \<Longrightarrow>
   no_regress (messages (run before w)) (messages (run later (run before w)))"
proof -
  assume "messages w = []"
  then have "never_read (messages w)" by (simp add: never_read_def)
  then have "never_read (messages (run before w))" by (rule never_read_run)
  then show ?thesis by (rule no_regress_run)
qed

theorem status_never_regresses_witness:
  "messages world0 = [] \<and>
   no_regress
     (messages (run [Op_create alice_id bob_id ''Hello''] world0))
     (messages (run [Op_rest_read bob_id alice_id, Op_deliver 0]
                  (run [Op_create alice_id bob_id ''Hello''] world0)))"
proof -
  have h: "messages world0 = []" by (simp add: world0_def)
  show ?thesis by (rule conjI[OF h status_never_regresses[OF h]])
qed

subsection \<open>Sending\<close>

lemma handleSendMessage_rejects_unacceptable:
  "d_content data = Some c \<Longrightarrow> \<not> isAcceptable (fst (analyzeContentSafety c (patterns w))) \<Longrightarrow>
   messages (handleSendMessage su data w) = messages w"
  by (cases "analyzeContentSafety c (patterns w)")
     (auto simp: handleSendMessage_def Let_def split: option.split sum.split)

text \<open>
  C1: a text that the filter scores below 70 is not stored, on the socket handler and on
  the REST route alike. The socket handler stores nothing when its own call of the analyzer
  returns a verdict that is not acceptable (lemma above). The REST route never calls the
  analyzer: Alice posts ``reach me at a@b.com'' to Bob, the text scores 40 and is not
  acceptable, the validation chain lets it pass, and the message is stored in redacted
  form; the socket handler rejects the same text with its three violations.
\<close>

theorem post_send_stores_unacceptable_text:
  "safetyScore (fst (analyzeContentSafety ''reach me at a@b.com'' (patterns world0))) = 40 \<and>
   \<not> isAcceptable (fst (analyzeContentSafety ''reach me at a@b.com'' (patterns world0))) \<and>
   map content (messages (snd (post_send alice bob_id ''reach me at a@b.com'' world0))) =
     [''reach me at [CONTACT INFO REMOVED]''] \<and>
   isl (fst (post_send alice bob_id ''reach me at a@b.com'' world0)) = False \<and>
   messages (handleSendMessage (socket_of alice) reach_me world0) = [] \<and>
   outbox (handleSendMessage (socket_of alice) reach_me world0) =
     [(Socket alice_id,
       Ev_message_error ''Message contains prohibited content''
         (Some [''Email addresses are not allowed'', ''Social media handles are not allowed'',
                ''Requests for direct contact are not allowed'']))]"
  by code_simp

text \<open>
  C3: sending is refused in both block directions on every entry point. The REST
  controller checks both lists. The socket handler checks the receiver's list only (the
  socket identity has no block list): Alice has blocked Bob, her socket send to Bob is
  stored, and the same request over REST is refused with 403.
\<close>

theorem socket_send_ignores_senders_block_list:
  "users world_blocked alice_id = Some alice_blocking \<and>
   bob_id \<in> set (blockedUsers alice_blocking) \<and>
   map content (messages (handleSendMessage (socket_of alice_blocking) say_hello world_blocked)) =
     [''Hello''] \<and>
   fst (post_send alice_blocking bob_id ''Hello'' world_blocked) =
     Inl (AppError ''You have blocked the receiver'' 403) \<and>
   messages (snd (post_send alice_blocking bob_id ''Hello'' world_blocked)) = []"
  by code_simp

subsection \<open>Blocking\<close>

text \<open>
  C2: users of the same role cannot send, read a conversation or block. The send handlers
  and the REST block controller compare the roles. The socket \<^verbatim>\<open>block_user\<close> handler does
  not: Alice and Carol are both artists, Alice's socket request blocks Carol and notifies
  her, and the same request over REST is refused with 403.
\<close>

theorem socket_block_ignores_roles:
  "s_role (socket_of alice) = role carol \<and>
   map_option blockedUsers
     (users (handleBlockUser (socket_of alice) (Some carol_id) world0) alice_id) =
     Some [carol_id] \<and>
   outbox (handleBlockUser (socket_of alice) (Some carol_id) world0) =
     [(Socket alice_id, Ev_user_block_toggled carol_id ''blocked'' [carol_id]),
      (Room ''user_64b7f0c2a1d3e4f5a6b7c8d3'',
       Ev_conversation_blocked alice_id ''64b7f0c2a1d3e4f5a6b7c8d1_64b7f0c2a1d3e4f5a6b7c8d3'')] \<and>
   fst (toggleBlockUser_controller alice carol_id world0) =
     Inl (AppError ''You cannot block users with the same role'' 403)"
  by code_simp

subsection \<open>Marking as read\<close>

lemma markMessagesAsRead_status:
  "map messageStatus (messages (markMessagesAsRead a b w)) = map messageStatus (messages w)"
  by (simp add: markMessagesAsRead_def)

lemma markMessagesAsRead_unread_zero:
  "countDocuments
     (\<lambda>m. conversationId m = createConversationId a b \<and> receiver m = a \<and> read m = False \<and>
          deleted m \<noteq> True)
     (markMessagesAsRead a b w) = 0"
  by (auto simp: countDocuments_def markMessagesAsRead_def Message_updateMany_def filter_empty_conv)

lemma markMessagesAsRead_idempotent:
  "messages w' = messages (markMessagesAsRead a b w) \<Longrightarrow>
   messages (markMessagesAsRead a b w') = messages w'"
  by (auto simp: markMessagesAsRead_def Message_updateMany_def intro!: map_idI)

text \<open>
  C4: marking as read sets the read flag, the read time and the status ``read'' of the
  reader's unread messages of the conversation, on the REST path and on the socket path.
  The service behind the REST path sets the flag and the time, after which the reader's
  unread count of the conversation is 0 and a second call changes nothing, but it leaves
  the status (lemmas above): Bob's unread message to Alice stays ``sent''. The socket handler fails before its
  update: the message stays unread and the socket gets the error event.
\<close>

theorem mark_as_read_misses_status:
  "messages (markMessagesAsRead alice_id bob_id world_unread) =
     [hello\<lparr>read := True, readAt := Some 1000\<rparr>] \<and>
   messageStatus (hello\<lparr>read := True, readAt := Some 1000\<rparr>) = Sent \<and>
   messages (handleMarkAsRead (socket_of alice) (Some bob_id) world_unread) = [hello] \<and>
   read hello = False \<and>
   outbox (handleMarkAsRead (socket_of alice) (Some bob_id) world_unread) =
     [(Socket alice_id, Ev_error ''Failed to mark messages as read'')]"
  by code_simp

subsection \<open>Typing indicators\<close>

lemma outbox_fire: "outbox (fire ts w) = outbox w"
  by (induction ts arbitrary: w)
     (simp_all add: stopTyping_def clearTimeout_def Let_def split: option.split)

lemma advance_emits_nothing: "outbox (advance d w) = outbox w"
  by (simp add: advance_def Let_def outbox_fire)

text \<open>
  C7: when the three seconds after \<^verbatim>\<open>typing_start\<close> pass without another event, the pair
  leaves the typing map and the counterpart gets one \<^verbatim>\<open>user_typing\<close> event with
  \<^verbatim>\<open>isTyping: false\<close>. The entry and the timer do go; but the timer's callback calls
  \<^verbatim>\<open>stopTyping\<close> without \<^verbatim>\<open>io\<close>, so nothing is emitted (lemma above, for every state
  and delay): after Alice's \<^verbatim>\<open>typing_start\<close> and 3001 ms Bob's room has received the
  ``true'' event only. An explicit \<^verbatim>\<open>typing_stop\<close> does emit the ``false'' event.
\<close>

theorem timer_expiry_is_silent:
  "activeTyping (advance 3001 (handleTypingStart (socket_of alice) (Some bob_id) world0))
     (typingKey alice_id bob_id) = None \<and>
   timers (advance 3001 (handleTypingStart (socket_of alice) (Some bob_id) world0)) = [] \<and>
   outbox (advance 3001 (handleTypingStart (socket_of alice) (Some bob_id) world0)) =
     [(Room ''user_64b7f0c2a1d3e4f5a6b7c8d2'', Ev_user_typing alice_id ''alice'' True)] \<and>
   outbox (handleTypingStop (socket_of alice) (Some bob_id)
             (handleTypingStart (socket_of alice) (Some bob_id) world0)) =
     [(Room ''user_64b7f0c2a1d3e4f5a6b7c8d2'', Ev_user_typing alice_id ''alice'' True),
      (Room ''user_64b7f0c2a1d3e4f5a6b7c8d2'', Ev_user_typing alice_id ''alice'' False)]"
  by code_simp

subsection \<open>Deleting\<close>

lemma deleteMessage_generic_failure:
  "fst (deleteMessage mid a w) = Inr () \<or>
   (fst (deleteMessage mid a w) = Inl (AppError ''Failed to delete message'' 500) \<and>
    snd (deleteMessage mid a w) = w)"
  by (simp add: deleteMessage_def split: sum.split)

text \<open>
  C8: deleting a missing message fails with a not-found error, deleting somebody else's
  message with a forbidden error, and the caller sees which. The body throws exactly these
  errors and leaves the collection alone, but the function's own \<^verbatim>\<open>catch\<close> turns both
  into the same error 500 (lemma above, for every input): message 7 does not exist, message
  0 was sent by Bob and not by Alice, and both calls fail with ``Failed to delete message''.
\<close>

theorem deleteMessage_hides_error_kind:
  "fst (deleteMessage 7 bob_id world_unread) = Inl (AppError ''Failed to delete message'' 500) \<and>
   fst (deleteMessage 0 alice_id world_unread) = Inl (AppError ''Failed to delete message'' 500) \<and>
   error_of (deleteMessage_body 7 bob_id world_unread) =
     Some (AppError ''Message not found'' 404) \<and>
   error_of (deleteMessage_body 0 alice_id world_unread) =
     Some (AppError ''You can only delete your own messages'' 403) \<and>
   messages (snd (deleteMessage 7 bob_id world_unread)) = messages world_unread \<and>
   messages (snd (deleteMessage 0 alice_id world_unread)) = messages world_unread"
  by code_simp

end
